theory Spec2Isabelle
  imports Main
begin

section \<open>JSON values\<close>

text \<open>
  The handlers of \<^verbatim>\<open>lambda_function.py\<close> return Python dicts of strings, and the body of
  a request is decoded JSON. A dict is kept as the list of its items in insertion order
  (the order \<^verbatim>\<open>json.dumps\<close> writes them in); the keys of a decoded object are distinct.
\<close>

datatype json =
    JNull
  | JBool bool
  | JNum int
  | JStr string
  | JArr "json list"
  | JObj "(string \<times> json) list"

fun field :: "string \<Rightarrow> json \<Rightarrow> json option" where
  "field k (JObj kvs) = map_of kvs k"
| "field k _ = None"

fun at_path :: "string list \<Rightarrow> json \<Rightarrow> json option" where
  "at_path [] j = Some j"
| "at_path (k # ks) j = (case field k j of None \<Rightarrow> None | Some v \<Rightarrow> at_path ks v)"

subsection \<open>Serialisation\<close>

text \<open>
  FastAPI's default response class renders a handler's result with
  \<^verbatim>\<open>json.dumps(content, ensure_ascii=False, allow_nan=False, indent=None, separators=(",", ":"))\<close>:
  no white space, and only the quote, the backslash and the control characters escaped.
\<close>

definition hex_digit :: "nat \<Rightarrow> char" where
  "hex_digit n = (if n < 10 then char_of (48 + n) else char_of (87 + n))"

definition escape_char :: "char \<Rightarrow> string" where
  "escape_char c =
     (if c = CHR 0x22 then [CHR 0x5C, CHR 0x22]
      else if c = CHR 0x5C then [CHR 0x5C, CHR 0x5C]
      else if c = CHR 0x0A then [CHR 0x5C, CHR ''n'']
      else if c = CHR 0x0D then [CHR 0x5C, CHR ''r'']
      else if c = CHR 0x09 then [CHR 0x5C, CHR ''t'']
      else if c = CHR 0x08 then [CHR 0x5C, CHR ''b'']
      else if c = CHR 0x0C then [CHR 0x5C, CHR ''f'']
      else if (of_char c :: nat) < 32
        then [CHR 0x5C, CHR ''u'', CHR ''0'', CHR ''0'',
              hex_digit (of_char c div 16), hex_digit (of_char c mod 16)]
      else [c])"

definition dumps_str :: "string \<Rightarrow> string" where
  "dumps_str s = [CHR 0x22] @ concat (map escape_char s) @ [CHR 0x22]"

fun dumps_nat :: "nat \<Rightarrow> string" where
  "dumps_nat n = (if n < 10 then [char_of (48 + n)] else dumps_nat (n div 10) @ [char_of (48 + n mod 10)])"

definition dumps_int :: "int \<Rightarrow> string" where
  "dumps_int i = (if i < 0 then ''-'' @ dumps_nat (nat (- i)) else dumps_nat (nat i))"

fun dumps :: "json \<Rightarrow> string"
  and dumps_items :: "json list \<Rightarrow> string"
  and dumps_members :: "(string \<times> json) list \<Rightarrow> string" where
  "dumps JNull = ''null''"
| "dumps (JBool b) = (if b then ''true'' else ''false'')"
| "dumps (JNum i) = dumps_int i"
| "dumps (JStr s) = dumps_str s"
| "dumps (JArr xs) = ''['' @ dumps_items xs @ '']''"
| "dumps (JObj kvs) = ''{'' @ dumps_members kvs @ ''}''"
| "dumps_items [] = []"
| "dumps_items [x] = dumps x"
| "dumps_items (x # y # ys) = dumps x @ '','' @ dumps_items (y # ys)"
| "dumps_members [] = []"
| "dumps_members [(k, v)] = dumps_str k @ '':'' @ dumps v"
| "dumps_members ((k, v) # kv # kvs) = dumps_str k @ '':'' @ dumps v @ '','' @ dumps_members (kv # kvs)"

section \<open>The typed body of \<^verbatim>\<open>POST /platform\<close>\<close>

text \<open>
  \<^verbatim>\<open>
  class PlatformRequest(BaseModel):
      name: str
      version: Optional[str] = "1.0.0"
      description: Optional[str] = ""
  \<close>
  \<^verbatim>\<open>Optional[str]\<close> is \<^verbatim>\<open>str | None\<close>: the two optional fields are \<open>string option\<close>,
  with \<open>None\<close> for Python's \<^verbatim>\<open>None\<close>.
\<close>

record PlatformRequest =
  name :: string
  version :: "string option"
  description :: "string option"

datatype verror_kind = Missing | StringType | ModelType | JsonInvalid

type_synonym verror = "string list \<times> verror_kind"

text \<open>
  A \<^verbatim>\<open>str\<close> field takes a JSON string as it is and refuses \<^verbatim>\<open>null\<close>. What pydantic does
  with a value that is neither depends on its major version (version 1 converts numbers to
  their text, version 2 converts nothing), so that conversion is the parameter \<open>lax\<close>.
\<close>

definition no_coercion :: "json \<Rightarrow> string option" where
  "no_coercion v = None"

definition str_field :: "(json \<Rightarrow> string option) \<Rightarrow> string \<Rightarrow> json \<Rightarrow> verror list + string" where
  "str_field lax fld v =
     (case v of
        JStr s \<Rightarrow> Inr s
      | JNull \<Rightarrow> Inl [([''body'', fld], StringType)]
      | _ \<Rightarrow> (case lax v of Some s \<Rightarrow> Inr s | None \<Rightarrow> Inl [([''body'', fld], StringType)]))"

definition opt_str_field ::
  "(json \<Rightarrow> string option) \<Rightarrow> string \<Rightarrow> json \<Rightarrow> verror list + string option" where
  "opt_str_field lax fld v =
     (case v of
        JStr s \<Rightarrow> Inr (Some s)
      | JNull \<Rightarrow> Inr None
      | _ \<Rightarrow> (case lax v of Some s \<Rightarrow> Inr (Some s) | None \<Rightarrow> Inl [([''body'', fld], StringType)]))"

definition errors_of :: "verror list + 'a \<Rightarrow> verror list" where
  "errors_of x = (case x of Inl es \<Rightarrow> es | Inr _ \<Rightarrow> [])"

text \<open>
  A required field that is absent is an error; an optional field that is absent takes
  its declared default, which is not validated.
\<close>

definition required_field ::
  "(json \<Rightarrow> string option) \<Rightarrow> (string \<times> json) list \<Rightarrow> string \<Rightarrow> verror list + string" where
  "required_field lax kvs fld =
     (case map_of kvs fld of
        None \<Rightarrow> Inl [([''body'', fld], Missing)]
      | Some v \<Rightarrow> str_field lax fld v)"

definition optional_field ::
  "(json \<Rightarrow> string option) \<Rightarrow> (string \<times> json) list \<Rightarrow> string \<Rightarrow> string option
     \<Rightarrow> verror list + string option" where
  "optional_field lax kvs fld dflt =
     (case map_of kvs fld of
        None \<Rightarrow> Inr dflt
      | Some v \<Rightarrow> opt_str_field lax fld v)"

text \<open>
  Validation of a decoded body against the model: every field is checked and all the
  errors are collected; a key the model does not declare is ignored.
\<close>

definition validate_PlatformRequest ::
  "(json \<Rightarrow> string option) \<Rightarrow> json \<Rightarrow> verror list + PlatformRequest" where
  "validate_PlatformRequest lax j =
     (case j of
        JObj kvs \<Rightarrow>
          (let n = required_field lax kvs ''name'';
               ver = optional_field lax kvs ''version'' (Some ''1.0.0'');
               d = optional_field lax kvs ''description'' (Some '''')
           in (case (n, ver, d) of
                 (Inr n', Inr ver', Inr d') \<Rightarrow>
                   Inr \<lparr>name = n', version = ver', description = d'\<rparr>
               | _ \<Rightarrow> Inl (errors_of n @ errors_of ver @ errors_of d)))
      | _ \<Rightarrow> Inl [([''body''], ModelType)])"

section \<open>Logging\<close>

text \<open>
  \<^verbatim>\<open>logger = logging.getLogger(); logger.setLevel(logging.INFO)\<close>: the root logger, which
  emits both the records the module writes. The log is the list of the records emitted so
  far, each with its severity; a record keeps the value that is formatted into its text.
\<close>

type_synonym exn = string

datatype level = INFO | ERROR

datatype log_msg = Processing PlatformRequest | ErrorProcessing exn

type_synonym log = "(level \<times> log_msg) list"

definition logger_info :: "log \<Rightarrow> log_msg \<Rightarrow> log" where
  "logger_info lg m = lg @ [(INFO, m)]"

definition logger_exception :: "log \<Rightarrow> log_msg \<Rightarrow> log" where
  "logger_exception lg m = lg @ [(ERROR, m)]"

section \<open>The handlers\<close>

definition health :: json where
  "health = JObj [(''status'', JStr ''healthy''), (''service'', JStr ''example-python-lambda'')]"

definition root :: json where
  "root = JObj [(''message'', JStr ''Hello from Python Lambda!'')]"

text \<open>Python's truth value and formatting of an \<^verbatim>\<open>Optional[str]\<close>.\<close>

fun truthy :: "string option \<Rightarrow> bool" where
  "truthy None = False"
| "truthy (Some s) = (s \<noteq> [])"

fun format_opt :: "string option \<Rightarrow> string" where
  "format_opt None = ''None''"
| "format_opt (Some s) = s"

fun json_of_opt :: "string option \<Rightarrow> json" where
  "json_of_opt None = JNull"
| "json_of_opt (Some s) = JStr s"

text \<open>
  The body of the \<^verbatim>\<open>try\<close> block of \<^verbatim>\<open>platform\<close>. For a validated request none of its
  statements raises; \<open>fault\<close> is an unexpected exception raised inside the block (by its
  first operation, the library call \<^verbatim>\<open>request.dict()\<close>), \<open>None\<close> in a normal run.
\<close>

definition platform_try :: "exn option \<Rightarrow> PlatformRequest \<Rightarrow> log \<Rightarrow> (exn + json) \<times> log" where
  "platform_try fault request lg =
     (case fault of
        Some e \<Rightarrow> (Inl e, lg)
      | None \<Rightarrow>
          (let lg1 = logger_info lg (Processing request);
               response_message = ''Welcome to '' @ name request @ ''!'';
               response_message =
                 (if truthy (version request)
                  then response_message @ '' Running version '' @ format_opt (version request) @ ''.''
                  else response_message);
               response_message =
                 (if truthy (description request)
                  then response_message @ '' Description: '' @ format_opt (description request)
                  else response_message);
               platform_info =
                 JObj [(''message'', JStr response_message),
                       (''platform'',
                          JObj [(''name'', JStr (name request)),
                                (''version'', json_of_opt (version request)),
                                (''description'', json_of_opt (description request)),
                                (''status'', JStr ''active''),
                                (''uptime'', JStr ''99.9%'')]),
                       (''metadata'',
                          JObj [(''processed_at'', JStr ''2024-01-01T00:00:00Z''),
                                (''lambda_version'', JStr ''python3.12''),
                                (''region'', JStr ''us-east-1'')])]
           in (Inr platform_info, lg1)))"

text \<open>
  \<^verbatim>\<open>except Exception as e: logger.exception(...); raise\<close>: the exception is logged at
  severity ERROR and raised again.
\<close>

definition platform :: "exn option \<Rightarrow> PlatformRequest \<Rightarrow> log \<Rightarrow> (exn + json) \<times> log" where
  "platform fault request lg =
     (case platform_try fault request lg of
        (Inr platform_info, lg') \<Rightarrow> (Inr platform_info, lg')
      | (Inl e, lg') \<Rightarrow> (Inl e, logger_exception lg' (ErrorProcessing e)))"

section \<open>The application\<close>

text \<open>
  An inbound event as the application receives it: the method, the path and the body.
  The body is one sent as JSON (with a JSON content type, or none), as FastAPI's reading
  of it yields it: nothing (no body, or an empty one); a text that \<^verbatim>\<open>json.loads\<close>
  rejects with \<^verbatim>\<open>JSONDecodeError\<close>; a body on which \<^verbatim>\<open>json.loads\<close> fails with any other
  exception (bytes that are not the encoding of a text, such as the single byte 255, or
  brackets nested beyond the recursion limit); or the decoded JSON value.
\<close>

datatype body_in = NoBody | NotJson | Unreadable | Decoded json

record event =
  httpMethod :: string
  path :: string
  body :: body_in

text \<open>
  The body of a response: a JSON value; the object \<^verbatim>\<open>{"detail": [...]}\<close> that lists
  validation errors (how one error is rendered depends on the version of pydantic); a
  plain text; a redirection to a path; a document generated by FastAPI itself.
\<close>

datatype content =
    JsonBody json
  | ValidationDetail "verror list"
  | PlainText string
  | RedirectTo string
  | Generated string

record response =
  statusCode :: nat
  content :: content

text \<open>
  Whether a body is sent as JSON (media type \<^verbatim>\<open>application/json\<close>): of the generated
  documents only the OpenAPI schema is.
\<close>

definition is_json :: "content \<Rightarrow> bool" where
  "is_json c =
     (case c of
        JsonBody j \<Rightarrow> True
      | ValidationDetail errs \<Rightarrow> True
      | PlainText t \<Rightarrow> False
      | RedirectTo p \<Rightarrow> False
      | Generated p \<Rightarrow> p = ''/openapi.json'')"

text \<open>The value at a path of keys in a response whose body is a JSON value.\<close>

definition response_at :: "string list \<Rightarrow> response \<Rightarrow> json option" where
  "response_at ks r = (case content r of JsonBody j \<Rightarrow> at_path ks j | _ \<Rightarrow> None)"

datatype endpoint = Docs | Health | Root | Platform

type_synonym route = "string \<times> string list \<times> endpoint"

text \<open>
  \<^verbatim>\<open>app = FastAPI()\<close> with no argument first registers FastAPI's own documentation
  routes (for GET, and HEAD with it); the three decorators of the module add theirs, each
  for the one method of the decorator.
\<close>

definition routes :: "route list" where
  "routes =
     [(''/openapi.json'', [''GET'', ''HEAD''], Docs),
      (''/docs'', [''GET'', ''HEAD''], Docs),
      (''/docs/oauth2-redirect'', [''GET'', ''HEAD''], Docs),
      (''/redoc'', [''GET'', ''HEAD''], Docs),
      (''/health'', [''GET''], Health),
      (''/'', [''GET''], Root),
      (''/platform'', [''POST''], Platform)]"

datatype match = NONE | PARTIAL | FULL

text \<open>
  Starlette compiles the path \<open>p\<close> of a route to the regular expression \<^verbatim>\<open>^p$\<close> and
  applies \<^verbatim>\<open>re.match\<close> to the path of the request. The end anchor also matches before a
  final newline, so a request path matches when it is \<open>p\<close>, or \<open>p\<close> followed by one newline.
\<close>

definition path_matches :: "string \<Rightarrow> string \<Rightarrow> bool" where
  "path_matches p q = (q = p \<or> q = p @ [CHR 0x0A])"

fun matches :: "route \<Rightarrow> string \<Rightarrow> string \<Rightarrow> match" where
  "matches (p, ms, ep) m q =
     (if path_matches p q then (if m \<in> set ms then FULL else PARTIAL) else NONE)"

text \<open>Whether the path of some route matches a request path.\<close>

definition has_route :: "string \<Rightarrow> bool" where
  "has_route q = list_ex (\<lambda>r. path_matches (fst r) q) routes"

definition rstrip_slash :: "string \<Rightarrow> string" where
  "rstrip_slash p = rev (dropWhile (\<lambda>c. c = CHR ''/'') (rev p))"

definition redirect_path :: "string \<Rightarrow> string" where
  "redirect_path p = (if p \<noteq> [] \<and> last p = CHR ''/'' then rstrip_slash p else p @ ''/'')"

text \<open>
  The body parameter of \<^verbatim>\<open>platform\<close>. A missing body (or the JSON value \<^verbatim>\<open>null\<close>) and
  a text rejected with \<^verbatim>\<open>JSONDecodeError\<close> are validation errors, like a value that is
  not a \<^verbatim>\<open>PlatformRequest\<close>. Any other failure of \<^verbatim>\<open>json.loads\<close> is not a validation
  error: FastAPI turns it into the HTTP error 400.
\<close>

datatype body_error = ParseError | Invalid "verror list"

definition request_body ::
  "(json \<Rightarrow> string option) \<Rightarrow> body_in \<Rightarrow> body_error + PlatformRequest" where
  "request_body lax b =
     (case b of
        NoBody \<Rightarrow> Inl (Invalid [([''body''], Missing)])
      | NotJson \<Rightarrow> Inl (Invalid [([''body''], JsonInvalid)])
      | Unreadable \<Rightarrow> Inl ParseError
      | Decoded j \<Rightarrow>
          (if j = JNull then Inl (Invalid [([''body''], Missing)])
           else (case validate_PlatformRequest lax j of
                   Inl errs \<Rightarrow> Inl (Invalid errs)
                 | Inr request \<Rightarrow> Inr request)))"

text \<open>
  Running the endpoint of a matched route. A result is sent with status 200; validation
  errors are sent with status 422, a body that could not be parsed with status 400 and
  the detail \<^verbatim>\<open>There was an error parsing the body\<close>, and in both cases the handler is
  not called; an exception of the handler leaves the application (\<open>Inl\<close>).
\<close>

definition handle ::
  "(json \<Rightarrow> string option) \<Rightarrow> exn option \<Rightarrow> endpoint \<Rightarrow> event \<Rightarrow> log \<Rightarrow> (exn + response) \<times> log" where
  "handle lax fault ep ev lg =
     (case ep of
        Docs \<Rightarrow> (Inr \<lparr>statusCode = 200, content = Generated (path ev)\<rparr>, lg)
      | Health \<Rightarrow> (Inr \<lparr>statusCode = 200, content = JsonBody health\<rparr>, lg)
      | Root \<Rightarrow> (Inr \<lparr>statusCode = 200, content = JsonBody root\<rparr>, lg)
      | Platform \<Rightarrow>
          (case request_body lax (body ev) of
             Inl err \<Rightarrow>
               (case err of
                  ParseError \<Rightarrow>
                    (Inr \<lparr>statusCode = 400,
                          content = JsonBody (JObj [(''detail'',
                                      JStr ''There was an error parsing the body'')])\<rparr>, lg)
                | Invalid errs \<Rightarrow>
                    (Inr \<lparr>statusCode = 422, content = ValidationDetail errs\<rparr>, lg))
           | Inr request \<Rightarrow>
               (case platform fault request lg of
                  (Inr platform_info, lg') \<Rightarrow>
                    (Inr \<lparr>statusCode = 200, content = JsonBody platform_info\<rparr>, lg')
                | (Inl e, lg') \<Rightarrow> (Inl e, lg'))))"

text \<open>
  The router: the first route that matches path and method is run; failing that, a route
  that matches the path alone answers 405; failing that, a path other than \<^verbatim>\<open>/\<close> that
  matches a route once its trailing slashes are removed (or, when it has none, once a
  slash is added) is redirected; anything else is 404.
  The module registers no exception handler, so 405 and 404 carry FastAPI's default body.
\<close>

definition app ::
  "(json \<Rightarrow> string option) \<Rightarrow> exn option \<Rightarrow> event \<Rightarrow> log \<Rightarrow> (exn + response) \<times> log" where
  "app lax fault ev lg =
     (case find (\<lambda>r. matches r (httpMethod ev) (path ev) = FULL) routes of
        Some (p, ms, ep) \<Rightarrow> handle lax fault ep ev lg
      | None \<Rightarrow>
          (case find (\<lambda>r. matches r (httpMethod ev) (path ev) = PARTIAL) routes of
             Some r \<Rightarrow>
               (Inr \<lparr>statusCode = 405,
                     content = JsonBody (JObj [(''detail'', JStr ''Method Not Allowed'')])\<rparr>, lg)
           | None \<Rightarrow>
               (if path ev \<noteq> ''/'' \<and>
                   find (\<lambda>r. matches r (httpMethod ev) (redirect_path (path ev)) \<noteq> NONE) routes \<noteq> None
                then (Inr \<lparr>statusCode = 307, content = RedirectTo (redirect_path (path ev))\<rparr>, lg)
                else (Inr \<lparr>statusCode = 404,
                           content = JsonBody (JObj [(''detail'', JStr ''Not Found'')])\<rparr>, lg))))"

text \<open>
  \<^verbatim>\<open>lambda_handler = Mangum(app)\<close>: one event in, one response out. An exception that
  leaves the application is answered by the server-error layer with status 500 and the
  plain text \<^verbatim>\<open>Internal Server Error\<close>.
\<close>

definition lambda_handler ::
  "(json \<Rightarrow> string option) \<Rightarrow> exn option \<Rightarrow> event \<Rightarrow> log \<Rightarrow> response \<times> log" where
  "lambda_handler lax fault ev lg =
     (case app lax fault ev lg of
        (Inr r, lg') \<Rightarrow> (r, lg')
      | (Inl e, lg') \<Rightarrow> (\<lparr>statusCode = 500, content = PlainText ''Internal Server Error''\<rparr>, lg'))"

section \<open>Facts about the model\<close>

subsection \<open>Routing\<close>

lemma find_full_health:
  "find (\<lambda>r. matches r ''GET'' ''/health'' = FULL) routes = Some (''/health'', [''GET''], Health)"
  by (simp add: routes_def path_matches_def)

lemma find_full_platform:
  "find (\<lambda>r. matches r ''POST'' ''/platform'' = FULL) routes =
     Some (''/platform'', [''POST''], Platform)"
  by (simp add: routes_def path_matches_def)

text \<open>A registered path followed by a newline reaches the same route.\<close>

lemma health_newline:
  "lambda_handler lax fault
     \<lparr>httpMethod = ''GET'', path = ''/health'' @ [CHR 0x0A], body = NoBody\<rparr> lg =
     (\<lparr>statusCode = 200, content = JsonBody health\<rparr>, lg)"
  by (simp add: lambda_handler_def app_def routes_def path_matches_def handle_def)

text \<open>Requests that reach no handler.\<close>

lemma no_route_find:
  assumes "\<not> has_route q"
  shows "find (\<lambda>r. matches r m q = FULL) routes = None"
    and "find (\<lambda>r. matches r m q = PARTIAL) routes = None"
    and "find (\<lambda>r. matches r m q \<noteq> NONE) routes = None"
  using assms by (simp_all add: has_route_def routes_def)

lemma unrouted_404:
  assumes "\<not> has_route (path ev)" and "\<not> has_route (redirect_path (path ev))"
  shows "lambda_handler lax fault ev lg =
        (\<lparr>statusCode = 404, content = JsonBody (JObj [(''detail'', JStr ''Not Found'')])\<rparr>, lg)"
  by (simp add: lambda_handler_def app_def no_route_find [OF assms(1)] no_route_find [OF assms(2)])

lemma wrong_method_find:
  assumes "(path_matches ''/health'' q \<or> path_matches ''/'' q) \<and> m \<noteq> ''GET'' \<or>
           path_matches ''/platform'' q \<and> m \<noteq> ''POST''"
  shows "find (\<lambda>r. matches r m q = FULL) routes = None"
    and "find (\<lambda>r. matches r m q = PARTIAL) routes \<noteq> None"
proof -
  from assms consider
      "q = ''/health''" "m \<noteq> ''GET''" | "q = ''/health'' @ [CHR 0x0A]" "m \<noteq> ''GET''"
    | "q = ''/''" "m \<noteq> ''GET''" | "q = ''/'' @ [CHR 0x0A]" "m \<noteq> ''GET''"
    | "q = ''/platform''" "m \<noteq> ''POST''" | "q = ''/platform'' @ [CHR 0x0A]" "m \<noteq> ''POST''"
    unfolding path_matches_def by blast
  then have "find (\<lambda>r. matches r m q = FULL) routes = None \<and>
             find (\<lambda>r. matches r m q = PARTIAL) routes \<noteq> None"
    by cases (simp_all add: routes_def path_matches_def)
  then show "find (\<lambda>r. matches r m q = FULL) routes = None"
    and "find (\<lambda>r. matches r m q = PARTIAL) routes \<noteq> None"
    by simp_all
qed

lemma wrong_method_405:
  assumes "(path_matches ''/health'' (path ev) \<or> path_matches ''/'' (path ev)) \<and>
             httpMethod ev \<noteq> ''GET'' \<or>
           path_matches ''/platform'' (path ev) \<and> httpMethod ev \<noteq> ''POST''"
  shows "lambda_handler lax fault ev lg =
        (\<lparr>statusCode = 405, content = JsonBody (JObj [(''detail'', JStr ''Method Not Allowed'')])\<rparr>, lg)"
  using wrong_method_find [OF assms]
  by (auto simp: lambda_handler_def app_def)

lemma post_platform:
  assumes "httpMethod ev = ''POST''" and "path ev = ''/platform''"
  shows "app lax fault ev lg = handle lax fault Platform ev lg"
  using assms by (simp add: app_def find_full_platform)

subsection \<open>The platform handler\<close>

lemma platform_ok:
  "platform None r lg =
     (Inr (JObj [(''message'', JStr (''Welcome to '' @ name r @ ''!'' @
                    (if truthy (version r)
                     then '' Running version '' @ format_opt (version r) @ ''.'' else []) @
                    (if truthy (description r)
                     then '' Description: '' @ format_opt (description r) else []))),
                 (''platform'',
                    JObj [(''name'', JStr (name r)),
                          (''version'', json_of_opt (version r)),
                          (''description'', json_of_opt (description r)),
                          (''status'', JStr ''active''),
                          (''uptime'', JStr ''99.9%'')]),
                 (''metadata'',
                    JObj [(''processed_at'', JStr ''2024-01-01T00:00:00Z''),
                          (''lambda_version'', JStr ''python3.12''),
                          (''region'', JStr ''us-east-1'')])]),
      lg @ [(INFO, Processing r)])"
  by (simp add: platform_def platform_try_def logger_info_def Let_def)

lemma platform_fault:
  "platform (Some e) r lg = (Inl e, lg @ [(ERROR, ErrorProcessing e)])"
  by (simp add: platform_def platform_try_def logger_exception_def)


lemma platform_result_log_free: "fst (platform fault r lg) = fst (platform fault r lg')"
  by (cases fault) (simp_all add: platform_ok platform_fault)

subsection \<open>Validation\<close>





lemma required_field_given:
  "map_of kvs fld = Some (JStr s) \<Longrightarrow> required_field lax kvs fld = Inr s"
  by (simp add: required_field_def str_field_def)

lemma optional_field_null:
  "map_of kvs fld = Some JNull \<Longrightarrow> optional_field lax kvs fld dflt = Inr None"
  by (simp add: optional_field_def opt_str_field_def)

lemma optional_field_absent:
  "map_of kvs fld = None \<Longrightarrow> optional_field lax kvs fld dflt = Inr dflt"
  by (simp add: optional_field_def)

lemma optional_field_given:
  "map_of kvs fld = Some (JStr s) \<Longrightarrow> optional_field lax kvs fld dflt = Inr (Some s)"
  by (simp add: optional_field_def opt_str_field_def)

lemma validate_cases:
  "validate_PlatformRequest lax (JObj kvs) =
     (case required_field lax kvs ''name'' of
        Inl e1 \<Rightarrow> Inl (e1 @ errors_of (optional_field lax kvs ''version'' (Some ''1.0.0''))
                        @ errors_of (optional_field lax kvs ''description'' (Some '''')))
      | Inr n \<Rightarrow>
          (case optional_field lax kvs ''version'' (Some ''1.0.0'') of
             Inl e2 \<Rightarrow> Inl (e2 @ errors_of (optional_field lax kvs ''description'' (Some '''')))
           | Inr v \<Rightarrow>
               (case optional_field lax kvs ''description'' (Some '''') of
                  Inl e3 \<Rightarrow> Inl e3
                | Inr d \<Rightarrow> Inr \<lparr>name = n, version = v, description = d\<rparr>)))"
  by (simp add: validate_PlatformRequest_def Let_def errors_of_def split: sum.splits)

lemma validate_Inr:
  assumes "validate_PlatformRequest lax (JObj kvs) = Inr r"
  shows "required_field lax kvs ''name'' = Inr (name r)"
    and "optional_field lax kvs ''version'' (Some ''1.0.0'') = Inr (version r)"
    and "optional_field lax kvs ''description'' (Some '''') = Inr (description r)"
  using assms by (auto simp: validate_cases split: sum.splits)

lemma validate_InrI:
  assumes "required_field lax kvs ''name'' = Inr n"
    and "optional_field lax kvs ''version'' (Some ''1.0.0'') = Inr v"
    and "optional_field lax kvs ''description'' (Some '''') = Inr d"
  shows "validate_PlatformRequest lax (JObj kvs) = Inr \<lparr>name = n, version = v, description = d\<rparr>"
  using assms by (simp add: validate_cases)



lemma request_body_Decoded:
  "request_body lax (Decoded (JObj kvs)) = Inr r \<longleftrightarrow>
     validate_PlatformRequest lax (JObj kvs) = Inr r"
  by (simp add: request_body_def split: sum.splits)


lemma request_body_Inr:
  assumes "request_body lax b = Inr r"
  shows "\<exists>kvs. b = Decoded (JObj kvs)"
proof (cases b)
  case (Decoded j)
  with assms show ?thesis
    by (cases j) (simp_all add: request_body_def validate_PlatformRequest_def)
qed (use assms in \<open>simp_all add: request_body_def\<close>)

lemma request_body_name_only:
  "request_body lax (Decoded (JObj [(''name'', JStr n)])) =
     Inr \<lparr>name = n, version = Some ''1.0.0'', description = Some ''''\<rparr>"
  by (simp add: request_body_Decoded validate_cases required_field_def optional_field_def
        str_field_def)

subsection \<open>\<^verbatim>\<open>POST /platform\<close>\<close>

text \<open>A valid body: the handler runs on the validated request.\<close>

lemma post_platform_valid:
  assumes "httpMethod ev = ''POST''" and "path ev = ''/platform''"
    and "request_body lax (body ev) = Inr r"
  shows "lambda_handler lax fault ev lg =
           (case platform fault r lg of
              (Inr platform_info, lg') \<Rightarrow> (\<lparr>statusCode = 200, content = JsonBody platform_info\<rparr>, lg')
            | (Inl e, lg') \<Rightarrow> (\<lparr>statusCode = 500, content = PlainText ''Internal Server Error''\<rparr>, lg'))"
  using assms
  by (simp add: lambda_handler_def post_platform handle_def split: prod.splits sum.splits)



text \<open>The response to a valid body in terms of the three fields of the request.\<close>

lemma post_platform_fields:
  assumes "httpMethod ev = ''POST''" and "path ev = ''/platform''"
    and "body ev = Decoded (JObj kvs)"
    and "required_field lax kvs ''name'' = Inr n"
    and "optional_field lax kvs ''version'' (Some ''1.0.0'') = Inr ver"
    and "optional_field lax kvs ''description'' (Some '''') = Inr de"
  shows "statusCode (fst (lambda_handler lax None ev lg)) = 200"
    and "response_at [''message''] (fst (lambda_handler lax None ev lg)) =
           Some (JStr (''Welcome to '' @ n @ ''!'' @
             (if truthy ver then '' Running version '' @ format_opt ver @ ''.'' else []) @
             (if truthy de then '' Description: '' @ format_opt de else [])))"
    and "response_at [''platform'', ''version''] (fst (lambda_handler lax None ev lg)) =
           Some (json_of_opt ver)"
    and "response_at [''platform'', ''description''] (fst (lambda_handler lax None ev lg)) =
           Some (json_of_opt de)"
proof -
  have "request_body lax (body ev) = Inr \<lparr>name = n, version = ver, description = de\<rparr>"
    using assms(3) validate_InrI [OF assms(4-6)] by (simp add: request_body_Decoded)
  from post_platform_valid [OF assms(1,2) this, of None lg]
  show "statusCode (fst (lambda_handler lax None ev lg)) = 200"
    and "response_at [''message''] (fst (lambda_handler lax None ev lg)) =
           Some (JStr (''Welcome to '' @ n @ ''!'' @
             (if truthy ver then '' Running version '' @ format_opt ver @ ''.'' else []) @
             (if truthy de then '' Description: '' @ format_opt de else [])))"
    and "response_at [''platform'', ''version''] (fst (lambda_handler lax None ev lg)) =
           Some (json_of_opt ver)"
    and "response_at [''platform'', ''description''] (fst (lambda_handler lax None ev lg)) =
           Some (json_of_opt de)"
    by (simp_all add: platform_ok response_at_def)
qed

subsection \<open>The response does not depend on the log\<close>

lemma handle_log_free: "fst (handle lax fault ep ev lg) = fst (handle lax fault ep ev lg')"
proof (cases ep)
  case Platform
  show ?thesis
  proof (cases "request_body lax (body ev)")
    case (Inl err)
    with Platform show ?thesis by (cases err) (simp_all add: handle_def)
  next
    case (Inr r)
    with Platform platform_result_log_free [of fault r lg lg'] show ?thesis
      by (cases "platform fault r lg"; cases "platform fault r lg'")
         (auto simp: handle_def split: sum.splits)
  qed
qed (simp_all add: handle_def)

lemma app_log_free: "fst (app lax fault ev lg) = fst (app lax fault ev lg')"
  using handle_log_free [of lax fault _ ev lg lg']
  by (simp add: app_def split: option.splits prod.splits)

lemma lambda_handler_log_free:
  "fst (lambda_handler lax fault ev lg) = fst (lambda_handler lax fault ev lg')"
  using app_log_free [of lax fault ev lg lg']
  by (cases "app lax fault ev lg"; cases "app lax fault ev lg'")
     (auto simp: lambda_handler_def split: sum.splits)

section \<open>The claims\<close>

subsection \<open>C1: requests that match no route\<close>

text \<open>
  C1 as stated fails. The module registers no handler for a routing miss, so FastAPI's
  defaults answer: \<^verbatim>\<open>GET /platform\<close>, a wrong method on an existing path, gets 405 and
  not 404; \<^verbatim>\<open>GET /unknown\<close> gets 404, but with the body \<^verbatim>\<open>{"detail":"Not Found"}\<close>;
  \<^verbatim>\<open>GET /docs\<close> is served by FastAPI with 200; \<^verbatim>\<open>GET /health/\<close> is redirected to
  \<^verbatim>\<open>/health\<close>. None of them is answered 404 with the body \<^verbatim>\<open>{"error": "not found"}\<close>.
\<close>

theorem unrouted_not_error_body:
  "fst (lambda_handler no_coercion None \<lparr>httpMethod = ''GET'', path = ''/platform'', body = NoBody\<rparr> []) =
     \<lparr>statusCode = 405, content = JsonBody (JObj [(''detail'', JStr ''Method Not Allowed'')])\<rparr>
   \<and> fst (lambda_handler no_coercion None \<lparr>httpMethod = ''GET'', path = ''/unknown'', body = NoBody\<rparr> []) =
     \<lparr>statusCode = 404, content = JsonBody (JObj [(''detail'', JStr ''Not Found'')])\<rparr>
   \<and> fst (lambda_handler no_coercion None \<lparr>httpMethod = ''GET'', path = ''/docs'', body = NoBody\<rparr> []) =
     \<lparr>statusCode = 200, content = Generated ''/docs''\<rparr>
   \<and> fst (lambda_handler no_coercion None \<lparr>httpMethod = ''GET'', path = ''/health/'', body = NoBody\<rparr> []) =
     \<lparr>statusCode = 307, content = RedirectTo ''/health''\<rparr>
   \<and> fst (lambda_handler no_coercion None \<lparr>httpMethod = ''GET'', path = ''/platform'', body = NoBody\<rparr> []) \<noteq>
     \<lparr>statusCode = 404, content = JsonBody (JObj [(''error'', JStr ''not found'')])\<rparr>
   \<and> fst (lambda_handler no_coercion None \<lparr>httpMethod = ''GET'', path = ''/unknown'', body = NoBody\<rparr> []) \<noteq>
     \<lparr>statusCode = 404, content = JsonBody (JObj [(''error'', JStr ''not found'')])\<rparr>"
  by (simp add: lambda_handler_def app_def routes_def path_matches_def handle_def redirect_path_def
        rstrip_slash_def)

text \<open>
  C1, amended. A route's path is matched by itself and by itself followed by one newline.
  A request whose path matches none of the registered routes (the three of the module and
  FastAPI's four documentation routes), and still matches none when its trailing slashes
  are removed (or, when it has none, when a slash is added), is answered with status 404
  and body \<^verbatim>\<open>{"detail":"Not Found"}\<close>. A request whose path matches \<^verbatim>\<open>/health\<close>, \<^verbatim>\<open>/\<close>
  or \<^verbatim>\<open>/platform\<close> with another method than the registered one is answered with status
  405 and body \<^verbatim>\<open>{"detail":"Method Not Allowed"}\<close>. In both cases no handler runs: the log
  is unchanged.
\<close>

theorem unrouted_request:
  "(\<not> has_route (path ev) \<and> \<not> has_route (redirect_path (path ev)) \<longrightarrow>
      lambda_handler lax fault ev lg =
        (\<lparr>statusCode = 404, content = JsonBody (JObj [(''detail'', JStr ''Not Found'')])\<rparr>, lg))
   \<and> ((path_matches ''/health'' (path ev) \<or> path_matches ''/'' (path ev)) \<and>
         httpMethod ev \<noteq> ''GET'' \<or>
       path_matches ''/platform'' (path ev) \<and> httpMethod ev \<noteq> ''POST'' \<longrightarrow>
      lambda_handler lax fault ev lg =
        (\<lparr>statusCode = 405, content = JsonBody (JObj [(''detail'', JStr ''Method Not Allowed'')])\<rparr>, lg))"
  using unrouted_404 [of ev lax fault lg] wrong_method_405 [of ev lax fault lg] by blast

text \<open>
  C1, amended, at \<^verbatim>\<open>GET /unknown\<close>, at \<^verbatim>\<open>GET /platform\<close>, and at a \<^verbatim>\<open>POST\<close> whose path
  is \<^verbatim>\<open>/health\<close> followed by a newline.
\<close>

theorem unrouted_request_witness:
  "\<not> has_route ''/unknown'' \<and> \<not> has_route (redirect_path ''/unknown'') \<and>
   lambda_handler no_coercion None \<lparr>httpMethod = ''GET'', path = ''/unknown'', body = NoBody\<rparr> [] =
        (\<lparr>statusCode = 404, content = JsonBody (JObj [(''detail'', JStr ''Not Found'')])\<rparr>, [])
   \<and> lambda_handler no_coercion None \<lparr>httpMethod = ''GET'', path = ''/platform'', body = NoBody\<rparr> [] =
        (\<lparr>statusCode = 405, content = JsonBody (JObj [(''detail'', JStr ''Method Not Allowed'')])\<rparr>, [])
   \<and> lambda_handler no_coercion None
        \<lparr>httpMethod = ''POST'', path = ''/health'' @ [CHR 0x0A], body = NoBody\<rparr> [] =
        (\<lparr>statusCode = 405, content = JsonBody (JObj [(''detail'', JStr ''Method Not Allowed'')])\<rparr>, [])"
  using unrouted_request [of "\<lparr>httpMethod = ''GET'', path = ''/unknown'', body = NoBody\<rparr>" no_coercion None "[]"]
    unrouted_request [of "\<lparr>httpMethod = ''GET'', path = ''/platform'', body = NoBody\<rparr>" no_coercion None "[]"]
    unrouted_request [of "\<lparr>httpMethod = ''POST'', path = ''/health'' @ [CHR 0x0A], body = NoBody\<rparr>"
      no_coercion None "[]"]
  by (simp add: redirect_path_def has_route_def routes_def path_matches_def)

subsection \<open>C2: a body with the name alone\<close>

text \<open>
  C2. For \<^verbatim>\<open>POST /platform\<close> with body \<^verbatim>\<open>{"name":"Acme"}\<close> the response has status 200,
  the message is \<^verbatim>\<open>Welcome to Acme! Running version 1.0.0.\<close>, \<^verbatim>\<open>platform.version\<close> is
  \<^verbatim>\<open>"1.0.0"\<close> and \<^verbatim>\<open>platform.description\<close> is the empty string.
\<close>

theorem acme_defaults:
  "statusCode (fst (lambda_handler lax None
      \<lparr>httpMethod = ''POST'', path = ''/platform'', body = Decoded (JObj [(''name'', JStr ''Acme'')])\<rparr> lg)) = 200
   \<and> response_at [''message''] (fst (lambda_handler lax None
      \<lparr>httpMethod = ''POST'', path = ''/platform'', body = Decoded (JObj [(''name'', JStr ''Acme'')])\<rparr> lg))
       = Some (JStr ''Welcome to Acme! Running version 1.0.0.'')
   \<and> response_at [''platform'', ''version''] (fst (lambda_handler lax None
      \<lparr>httpMethod = ''POST'', path = ''/platform'', body = Decoded (JObj [(''name'', JStr ''Acme'')])\<rparr> lg))
       = Some (JStr ''1.0.0'')
   \<and> response_at [''platform'', ''description''] (fst (lambda_handler lax None
      \<lparr>httpMethod = ''POST'', path = ''/platform'', body = Decoded (JObj [(''name'', JStr ''Acme'')])\<rparr> lg))
       = Some (JStr '''')"
  by (simp add: post_platform_valid request_body_name_only platform_ok response_at_def)

subsection \<open>C3: the order of the message\<close>

text \<open>
  C3. For every \<^verbatim>\<open>POST /platform\<close> request whose body validates to the request \<open>r\<close>, the
  message is the greeting with the name, then the version clause if and only if the
  version is a non-empty string, then the description clause if and only if the
  description is a non-empty string.
\<close>

theorem message_order:
  assumes "httpMethod ev = ''POST''" and "path ev = ''/platform''"
    and "request_body lax (body ev) = Inr r"
  shows "response_at [''message''] (fst (lambda_handler lax None ev lg)) =
           Some (JStr (''Welcome to '' @ name r @ ''!'' @
             (case version r of None \<Rightarrow> [] | Some v \<Rightarrow>
                if v = [] then [] else '' Running version '' @ v @ ''.'') @
             (case description r of None \<Rightarrow> [] | Some d \<Rightarrow>
                if d = [] then [] else '' Description: '' @ d)))"
  using assms
  by (cases "version r"; cases "description r")
     (simp_all add: post_platform_valid platform_ok response_at_def)

text \<open>
  C3 at the body \<^verbatim>\<open>{"name":"Acme","version":"","description":"x"}\<close>: the message is
  \<^verbatim>\<open>Welcome to Acme! Description: x\<close>.
\<close>

theorem message_order_witness:
  "request_body no_coercion
     (Decoded (JObj [(''name'', JStr ''Acme''), (''version'', JStr ''''), (''description'', JStr ''x'')])) =
     Inr \<lparr>name = ''Acme'', version = Some '''', description = Some ''x''\<rparr> \<and>
   response_at [''message''] (fst (lambda_handler no_coercion None
     \<lparr>httpMethod = ''POST'', path = ''/platform'',
      body = Decoded (JObj [(''name'', JStr ''Acme''), (''version'', JStr ''''),
                            (''description'', JStr ''x'')])\<rparr> [])) =
     Some (JStr ''Welcome to Acme! Description: x'')"
proof -
  have v: "request_body no_coercion
     (Decoded (JObj [(''name'', JStr ''Acme''), (''version'', JStr ''''), (''description'', JStr ''x'')])) =
     Inr \<lparr>name = ''Acme'', version = Some '''', description = Some ''x''\<rparr>"
    by (simp add: request_body_Decoded validate_cases required_field_def optional_field_def
          str_field_def opt_str_field_def)
  show ?thesis
    using v message_order [of "\<lparr>httpMethod = ''POST'', path = ''/platform'',
      body = Decoded (JObj [(''name'', JStr ''Acme''), (''version'', JStr ''''),
                            (''description'', JStr ''x'')])\<rparr>" no_coercion
      "\<lparr>name = ''Acme'', version = Some '''', description = Some ''x''\<rparr>" "[]"]
    by simp
qed

subsection \<open>C4: the name\<close>

text \<open>
  C4 as stated fails. The field is declared \<^verbatim>\<open>name: str\<close>, with no constraint on its
  length: the body \<^verbatim>\<open>{"name":""}\<close> is accepted and answered with status 200.
\<close>

theorem empty_name_accepted:
  "statusCode (fst (lambda_handler no_coercion None
      \<lparr>httpMethod = ''POST'', path = ''/platform'', body = Decoded (JObj [(''name'', JStr '''')])\<rparr> [])) = 200
   \<and> snd (lambda_handler no_coercion None
      \<lparr>httpMethod = ''POST'', path = ''/platform'', body = Decoded (JObj [(''name'', JStr '''')])\<rparr> []) =
     [(INFO, Processing \<lparr>name = '''', version = Some ''1.0.0'', description = Some ''''\<rparr>)]"
  by (simp add: post_platform_valid request_body_name_only platform_ok)

text \<open>
  C4, amended. Every \<^verbatim>\<open>PlatformRequest\<close> that reaches the handler has a name taken from
  the \<^verbatim>\<open>name\<close> key of the body, which is required: the key is present and its value is
  not \<^verbatim>\<open>null\<close> (it is the string that becomes the name, or a value pydantic converts to
  it). The name may be empty: the body \<^verbatim>\<open>{"name":""}\<close> produces a 200 response.
\<close>

theorem name_required:
  "(request_body lax b = Inr r \<longrightarrow>
      (\<exists>kvs v. b = Decoded (JObj kvs) \<and> map_of kvs ''name'' = Some v \<and> v \<noteq> JNull \<and>
               (v = JStr (name r) \<or> lax v = Some (name r))))
   \<and> statusCode (fst (lambda_handler lax None
        \<lparr>httpMethod = ''POST'', path = ''/platform'', body = Decoded (JObj [(''name'', JStr '''')])\<rparr> lg)) = 200"
proof -
  have "\<exists>kvs v. b = Decoded (JObj kvs) \<and> map_of kvs ''name'' = Some v \<and> v \<noteq> JNull \<and>
               (v = JStr (name r) \<or> lax v = Some (name r))"
    if ok: "request_body lax b = Inr r"
  proof -
    from request_body_Inr [OF ok] obtain kvs where b: "b = Decoded (JObj kvs)" ..
    with ok have "required_field lax kvs ''name'' = Inr (name r)"
      by (simp add: request_body_Decoded validate_Inr)
    then obtain v where "map_of kvs ''name'' = Some v" "str_field lax ''name'' v = Inr (name r)"
      by (auto simp: required_field_def split: option.splits)
    moreover from this have "v \<noteq> JNull \<and> (v = JStr (name r) \<or> lax v = Some (name r))"
      by (cases v) (auto simp: str_field_def split: option.splits)
    ultimately show ?thesis using b by blast
  qed
  moreover have "statusCode (fst (lambda_handler lax None
        \<lparr>httpMethod = ''POST'', path = ''/platform'', body = Decoded (JObj [(''name'', JStr '''')])\<rparr> lg)) = 200"
    by (simp add: post_platform_valid request_body_name_only platform_ok)
  ultimately show ?thesis by blast
qed

text \<open>C4, amended, at the body \<^verbatim>\<open>{"name":"Acme"}\<close>.\<close>

theorem name_required_witness:
  "request_body no_coercion (Decoded (JObj [(''name'', JStr ''Acme'')])) =
     Inr \<lparr>name = ''Acme'', version = Some ''1.0.0'', description = Some ''''\<rparr> \<and>
   map_of [(''name'', JStr ''Acme'')] ''name'' = Some (JStr ''Acme'') \<and>
   statusCode (fst (lambda_handler no_coercion None
        \<lparr>httpMethod = ''POST'', path = ''/platform'', body = Decoded (JObj [(''name'', JStr '''')])\<rparr> [])) = 200"
  using request_body_name_only [of no_coercion "''Acme''"]
    name_required [of no_coercion "Decoded (JObj [(''name'', JStr ''Acme'')])"
      "\<lparr>name = ''Acme'', version = Some ''1.0.0'', description = Some ''''\<rparr>" "[]"]
  by simp

subsection \<open>C5: a body without a name, or that is not JSON\<close>




subsection \<open>C6: defaults of the optional fields\<close>

text \<open>
  C6. When the body of a \<^verbatim>\<open>POST /platform\<close> validates to the request \<open>r\<close>, which is the
  request the handler receives (and logs), an absent \<^verbatim>\<open>version\<close> is delivered as
  \<^verbatim>\<open>"1.0.0"\<close> and an absent \<^verbatim>\<open>description\<close> as the empty string, neither as \<^verbatim>\<open>None\<close>.
\<close>

theorem defaults_filled:
  assumes "request_body lax (Decoded (JObj kvs)) = Inr r"
  shows "(map_of kvs ''version'' = None \<longrightarrow> version r = Some ''1.0.0'') \<and>
         (map_of kvs ''description'' = None \<longrightarrow> description r = Some '''') \<and>
         snd (lambda_handler lax None
                \<lparr>httpMethod = ''POST'', path = ''/platform'', body = Decoded (JObj kvs)\<rparr> lg) =
           lg @ [(INFO, Processing r)]"
proof -
  from assms have v: "validate_PlatformRequest lax (JObj kvs) = Inr r"
    by (simp add: request_body_Decoded)
  have "version r = Some ''1.0.0''" if "map_of kvs ''version'' = None"
    using validate_Inr(2) [OF v] that by (simp add: optional_field_def)
  moreover have "description r = Some ''''" if "map_of kvs ''description'' = None"
    using validate_Inr(3) [OF v] that by (simp add: optional_field_def)
  moreover have "snd (lambda_handler lax None
                \<lparr>httpMethod = ''POST'', path = ''/platform'', body = Decoded (JObj kvs)\<rparr> lg) =
           lg @ [(INFO, Processing r)]"
    using assms by (simp add: post_platform_valid platform_ok)
  ultimately show ?thesis by blast
qed

text \<open>C6 at the body \<^verbatim>\<open>{"name":"Acme"}\<close>, where both optional fields are absent.\<close>

theorem defaults_filled_witness:
  "request_body no_coercion (Decoded (JObj [(''name'', JStr ''Acme'')])) =
     Inr \<lparr>name = ''Acme'', version = Some ''1.0.0'', description = Some ''''\<rparr> \<and>
   map_of [(''name'', JStr ''Acme'')] ''version'' = None \<and>
   map_of [(''name'', JStr ''Acme'')] ''description'' = None \<and>
   snd (lambda_handler no_coercion None
          \<lparr>httpMethod = ''POST'', path = ''/platform'', body = Decoded (JObj [(''name'', JStr ''Acme'')])\<rparr> []) =
     [(INFO, Processing \<lparr>name = ''Acme'', version = Some ''1.0.0'', description = Some ''''\<rparr>)]"
  using request_body_name_only [of no_coercion "''Acme''"]
    defaults_filled [OF request_body_name_only [of no_coercion "''Acme''"], of "[]"]
  by simp

subsection \<open>C7: an exception in the handler\<close>

text \<open>
  C7 as stated fails on the body of the response. The module re-raises the exception and
  registers no handler for it, so the server-error layer answers: the status is 500, but
  the body is the plain text \<^verbatim>\<open>Internal Server Error\<close>, not a structured (JSON) error
  object.
\<close>

theorem handler_failure_plain_text:
  "fst (lambda_handler no_coercion (Some ''boom'')
      \<lparr>httpMethod = ''POST'', path = ''/platform'', body = Decoded (JObj [(''name'', JStr ''Acme'')])\<rparr> []) =
     \<lparr>statusCode = 500, content = PlainText ''Internal Server Error''\<rparr>
   \<and> \<not> is_json (content (fst (lambda_handler no_coercion (Some ''boom'')
      \<lparr>httpMethod = ''POST'', path = ''/platform'', body = Decoded (JObj [(''name'', JStr ''Acme'')])\<rparr> [])))"
  by (simp add: post_platform_valid request_body_name_only platform_fault is_json_def)

text \<open>
  C7, amended. If the platform handler raises an unexpected exception \<open>e\<close>, the handler
  logs it at severity ERROR and raises it again, and the response has status 500 with the
  plain-text body \<^verbatim>\<open>Internal Server Error\<close>, which is not JSON and is the same for every
  exception.
\<close>

theorem handler_failure:
  assumes "httpMethod ev = ''POST''" and "path ev = ''/platform''"
    and "request_body lax (body ev) = Inr r"
  shows "platform (Some e) r lg = (Inl e, lg @ [(ERROR, ErrorProcessing e)]) \<and>
         lambda_handler lax (Some e) ev lg =
           (\<lparr>statusCode = 500, content = PlainText ''Internal Server Error''\<rparr>,
            lg @ [(ERROR, ErrorProcessing e)]) \<and>
         \<not> is_json (content (fst (lambda_handler lax (Some e) ev lg)))"
  using assms by (simp add: post_platform_valid platform_fault is_json_def)

text \<open>C7, amended, at the body \<^verbatim>\<open>{"name":"Acme"}\<close> and the exception \<^verbatim>\<open>boom\<close>.\<close>

theorem handler_failure_witness:
  "request_body no_coercion (Decoded (JObj [(''name'', JStr ''Acme'')])) =
     Inr \<lparr>name = ''Acme'', version = Some ''1.0.0'', description = Some ''''\<rparr> \<and>
   lambda_handler no_coercion (Some ''boom'')
     \<lparr>httpMethod = ''POST'', path = ''/platform'', body = Decoded (JObj [(''name'', JStr ''Acme'')])\<rparr> [] =
     (\<lparr>statusCode = 500, content = PlainText ''Internal Server Error''\<rparr>,
      [(ERROR, ErrorProcessing ''boom'')])"
  using request_body_name_only [of no_coercion "''Acme''"]
    handler_failure [of "\<lparr>httpMethod = ''POST'', path = ''/platform'',
        body = Decoded (JObj [(''name'', JStr ''Acme'')])\<rparr>" no_coercion
        "\<lparr>name = ''Acme'', version = Some ''1.0.0'', description = Some ''''\<rparr>" "''boom''" "[]"]
  by simp

subsection \<open>C8: determinism\<close>

text \<open>
  C8. The only state that outlives an invocation is the log, and the response does not
  depend on it: the same event gives the same response from any two logs, in particular
  when the second invocation starts from the log the first one left. The field
  \<^verbatim>\<open>metadata.processed_at\<close> of a platform result is the constant \<^verbatim>\<open>2024-01-01T00:00:00Z\<close>.
\<close>

theorem deterministic:
  "fst (lambda_handler lax fault ev lg) = fst (lambda_handler lax fault ev lg') \<and>
   fst (lambda_handler lax fault ev (snd (lambda_handler lax fault ev lg))) =
     fst (lambda_handler lax fault ev lg) \<and>
   map_sum id (at_path [''metadata'', ''processed_at'']) (fst (platform None r lg)) =
     Inr (Some (JStr ''2024-01-01T00:00:00Z''))"
  using lambda_handler_log_free [of lax fault ev lg lg']
    lambda_handler_log_free [of lax fault ev "snd (lambda_handler lax fault ev lg)" lg]
  by (simp add: platform_ok)

subsection \<open>C9: the health check\<close>

text \<open>
  C9. For every event with method GET and path \<^verbatim>\<open>/health\<close>, whatever its body, the
  response has status 200 and the body \<^verbatim>\<open>{"status":"healthy","service":"example-python-lambda"}\<close>,
  byte for byte; the handler is a constant, and the log is unchanged.
\<close>

theorem health_fixed:
  assumes "httpMethod ev = ''GET''" and "path ev = ''/health''"
  shows "lambda_handler lax fault ev lg =
           (\<lparr>statusCode = 200,
             content = JsonBody (JObj [(''status'', JStr ''healthy''),
                                       (''service'', JStr ''example-python-lambda'')])\<rparr>, lg)
         \<and> dumps health = ''{\"status\":\"healthy\",\"service\":\"example-python-lambda\"}''"
proof -
  have "lambda_handler lax fault ev lg = (\<lparr>statusCode = 200, content = JsonBody health\<rparr>, lg)"
    using assms by (simp add: lambda_handler_def app_def handle_def find_full_health)
  moreover have "dumps health = ''{\"status\":\"healthy\",\"service\":\"example-python-lambda\"}''"
    by (simp add: health_def dumps_str_def escape_char_def)
  ultimately show ?thesis by (simp add: health_def)
qed

text \<open>C9 at a \<^verbatim>\<open>GET /health\<close> whose body is not JSON, with a failing handler environment.\<close>

theorem health_fixed_witness:
  "httpMethod \<lparr>httpMethod = ''GET'', path = ''/health'', body = NotJson\<rparr> = ''GET'' \<and>
   path \<lparr>httpMethod = ''GET'', path = ''/health'', body = NotJson\<rparr> = ''/health'' \<and>
   lambda_handler no_coercion (Some ''boom'') \<lparr>httpMethod = ''GET'', path = ''/health'', body = NotJson\<rparr> [] =
     (\<lparr>statusCode = 200,
       content = JsonBody (JObj [(''status'', JStr ''healthy''),
                                 (''service'', JStr ''example-python-lambda'')])\<rparr>, [])"
  using health_fixed [of "\<lparr>httpMethod = ''GET'', path = ''/health'', body = NotJson\<rparr>"
                         no_coercion "Some ''boom''" "[]"]
  by simp

subsection \<open>C10: an explicit null for an optional field\<close>

text \<open>
  C10. For a \<^verbatim>\<open>POST /platform\<close> body with a string name and an explicit \<^verbatim>\<open>null\<close> for
  \<^verbatim>\<open>version\<close> (the description being absent, \<^verbatim>\<open>null\<close> or a string), validation
  succeeds and the response has status 200: the default is not substituted,
  \<^verbatim>\<open>platform.version\<close> is \<^verbatim>\<open>null\<close> and the message has no version clause. The same holds
  for an explicit \<^verbatim>\<open>null\<close> for \<^verbatim>\<open>description\<close>.
\<close>

theorem explicit_null:
  assumes "httpMethod ev = ''POST''" and "path ev = ''/platform''"
    and "body ev = Decoded (JObj kvs)" and "map_of kvs ''name'' = Some (JStr n)"
  shows "(map_of kvs ''version'' = Some JNull \<and>
          (map_of kvs ''description'' = None \<or> map_of kvs ''description'' = Some JNull \<or>
           map_of kvs ''description'' = Some (JStr d)) \<longrightarrow>
            statusCode (fst (lambda_handler lax None ev lg)) = 200 \<and>
            response_at [''platform'', ''version''] (fst (lambda_handler lax None ev lg)) = Some JNull \<and>
            response_at [''message''] (fst (lambda_handler lax None ev lg)) =
              Some (JStr (''Welcome to '' @ n @ ''!'' @
                (if map_of kvs ''description'' = Some (JStr d) \<and> d \<noteq> []
                 then '' Description: '' @ d else []))))
       \<and> (map_of kvs ''description'' = Some JNull \<and>
          (map_of kvs ''version'' = None \<or> map_of kvs ''version'' = Some JNull \<or>
           map_of kvs ''version'' = Some (JStr v)) \<longrightarrow>
            statusCode (fst (lambda_handler lax None ev lg)) = 200 \<and>
            response_at [''platform'', ''description''] (fst (lambda_handler lax None ev lg)) = Some JNull \<and>
            response_at [''message''] (fst (lambda_handler lax None ev lg)) =
              Some (JStr (''Welcome to '' @ n @ ''!'' @
                (if map_of kvs ''version'' = None then '' Running version 1.0.0.''
                 else if map_of kvs ''version'' = Some (JStr v) \<and> v \<noteq> []
                 then '' Running version '' @ v @ ''.'' else []))))"
    (is "(?V \<and> ?D3 \<longrightarrow> ?P) \<and> (?D \<and> ?V3 \<longrightarrow> ?Q)")
proof -
  note n = required_field_given [OF assms(4), of lax]
  note run = post_platform_fields [OF assms(1-3) n, of _ _ lg]
  have ?P if v: ?V and d: ?D3
    using d
  proof (elim disjE)
    assume a: "map_of kvs ''description'' = None"
    from run [OF optional_field_null [OF v] optional_field_absent [OF a]] a
    show ?P by simp
  next
    assume a: "map_of kvs ''description'' = Some JNull"
    from run [OF optional_field_null [OF v] optional_field_null [OF a]] a
    show ?P by simp
  next
    assume a: "map_of kvs ''description'' = Some (JStr d)"
    from run [OF optional_field_null [OF v] optional_field_given [OF a]] a
    show ?P by simp
  qed
  moreover have ?Q if d: ?D and v: ?V3
    using v
  proof (elim disjE)
    assume a: "map_of kvs ''version'' = None"
    from run [OF optional_field_absent [OF a] optional_field_null [OF d]] a
    show ?Q by simp
  next
    assume a: "map_of kvs ''version'' = Some JNull"
    from run [OF optional_field_null [OF a] optional_field_null [OF d]] a
    show ?Q by simp
  next
    assume a: "map_of kvs ''version'' = Some (JStr v)"
    from run [OF optional_field_given [OF a] optional_field_null [OF d]] a
    show ?Q by simp
  qed
  ultimately show ?thesis by blast
qed

text \<open>
  C10 at the bodies \<^verbatim>\<open>{"name":"Acme","version":null}\<close> and
  \<^verbatim>\<open>{"name":"Acme","description":null}\<close>.
\<close>

theorem explicit_null_witness:
  "statusCode (fst (lambda_handler no_coercion None
      \<lparr>httpMethod = ''POST'', path = ''/platform'',
       body = Decoded (JObj [(''name'', JStr ''Acme''), (''version'', JNull)])\<rparr> [])) = 200 \<and>
   response_at [''platform'', ''version''] (fst (lambda_handler no_coercion None
      \<lparr>httpMethod = ''POST'', path = ''/platform'',
       body = Decoded (JObj [(''name'', JStr ''Acme''), (''version'', JNull)])\<rparr> [])) = Some JNull \<and>
   response_at [''message''] (fst (lambda_handler no_coercion None
      \<lparr>httpMethod = ''POST'', path = ''/platform'',
       body = Decoded (JObj [(''name'', JStr ''Acme''), (''version'', JNull)])\<rparr> [])) =
     Some (JStr ''Welcome to Acme!'') \<and>
   response_at [''platform'', ''description''] (fst (lambda_handler no_coercion None
      \<lparr>httpMethod = ''POST'', path = ''/platform'',
       body = Decoded (JObj [(''name'', JStr ''Acme''), (''description'', JNull)])\<rparr> [])) = Some JNull \<and>
   response_at [''message''] (fst (lambda_handler no_coercion None
      \<lparr>httpMethod = ''POST'', path = ''/platform'',
       body = Decoded (JObj [(''name'', JStr ''Acme''), (''description'', JNull)])\<rparr> [])) =
     Some (JStr ''Welcome to Acme! Running version 1.0.0.'')"
  using explicit_null [of "\<lparr>httpMethod = ''POST'', path = ''/platform'',
       body = Decoded (JObj [(''name'', JStr ''Acme''), (''version'', JNull)])\<rparr>"
       "[(''name'', JStr ''Acme''), (''version'', JNull)]" "''Acme''" "''''" no_coercion "[]" "''''"]
    explicit_null [of "\<lparr>httpMethod = ''POST'', path = ''/platform'',
       body = Decoded (JObj [(''name'', JStr ''Acme''), (''description'', JNull)])\<rparr>"
       "[(''name'', JStr ''Acme''), (''description'', JNull)]" "''Acme''" "''''" no_coercion "[]" "''''"]
  by simp

end
